theory Spec2Isabelle
  imports Complex_Main "HOL-Library.Sublist"
begin

section \<open>The Vamb command-line driver (run.py)\<close>

text \<open>
  The script \<open>run.py\<close> parses the command line, validates the parsed arguments against the
  file system, creates the output directory and runs the four stages of the pipeline
  (\<open>calc_tnf\<close>, \<open>calc_rpkm\<close>, \<open>trainvae\<close>, \<open>cluster\<close>) in \<open>main\<close>.
  The model below follows the script statement by statement. Exceptions are values of the
  type \<open>exn\<close>; the file system and the sequence of effects are threaded through as a
  \<open>world\<close>; the functions of the package \<open>vamb\<close> that the script calls are parameters
  (the record \<open>collab\<close>).
\<close>

subsection \<open>Values\<close>

type_synonym path = string

text \<open>
  Python integers are unbounded: \<open>int\<close>. A Python float is its exact value, or one of the
  three special values. The script never computes with floats, it only compares them with
  the integers 0 and 1, and these comparisons are exact; every comparison with NaN is false.
\<close>

datatype pyfloat = Finite rat | PosInf | NegInf | NaN

fun float_lt :: "pyfloat \<Rightarrow> rat \<Rightarrow> bool" where
  "float_lt (Finite q) k = (q < k)"
| "float_lt PosInf k = False"
| "float_lt NegInf k = True"
| "float_lt NaN k = False"

fun float_le :: "pyfloat \<Rightarrow> rat \<Rightarrow> bool" where
  "float_le (Finite q) k = (q \<le> k)"
| "float_le PosInf k = False"
| "float_le NegInf k = True"
| "float_le NaN k = False"

fun float_ge :: "pyfloat \<Rightarrow> rat \<Rightarrow> bool" where
  "float_ge (Finite q) k = (q \<ge> k)"
| "float_ge PosInf k = True"
| "float_ge NegInf k = False"
| "float_ge NaN k = False"

text \<open>The numpy arrays handed from stage to stage: a list of rows; \<open>len\<close> is the row count.\<close>

type_synonym matrix = "rat list list"

text \<open>
  The exceptions the script can end with. The argument is the message (for
  \<open>AttributeError\<close>, the name of the attribute that the \<open>Namespace\<close> does not have).
  \<open>OtherError\<close> stands for any exception class the script does not raise itself.
\<close>

datatype exn =
    FileExistsError string
  | NotADirectoryError string
  | FileNotFoundError string
  | ArgumentTypeError string
  | AttributeError string
  | ModuleNotFoundError string
  | ValueError string
  | TypeError string
  | IsADirectoryError string
  | SystemExit
  | OtherError string

subsection \<open>\<open>str\<close> of an integer\<close>

definition digit_char :: "nat \<Rightarrow> char" where
  "digit_char d = ''0123456789'' ! (d mod 10)"

fun str_nat :: "nat \<Rightarrow> string" where
  "str_nat n = (if n < 10 then [digit_char n] else str_nat (n div 10) @ [digit_char (n mod 10)])"

declare str_nat.simps [simp del]

definition str_int :: "int \<Rightarrow> string" where
  "str_int i = (if i < 0 then CHR ''-'' # str_nat (nat (- i)) else str_nat (nat i))"

subsection \<open>\<open>os.path\<close> and the file system\<close>

text \<open>
  \<open>posixpath.dirname\<close>: the part of the path up to and including the last slash, with the
  trailing slashes removed unless it consists of slashes only.
  \<open>posixpath.join\<close> with two components: an absolute second component replaces the first;
  otherwise the two are joined with a slash, which is left out when the first is empty or
  ends with one.
\<close>

definition os_path_dirname :: "path \<Rightarrow> path" where
  "os_path_dirname p =
     (let head = rev (dropWhile (\<lambda>c. c \<noteq> CHR ''/'') (rev p))
      in if head \<noteq> [] \<and> head \<noteq> replicate (length head) (CHR ''/'')
         then rev (dropWhile (\<lambda>c. c = CHR ''/'') (rev head))
         else head)"

definition os_path_join :: "path \<Rightarrow> path \<Rightarrow> path" where
  "os_path_join a b =
     (if b \<noteq> [] \<and> hd b = CHR ''/'' then b
      else if a = [] \<or> last a = CHR ''/'' then a @ b
      else a @ ''/'' @ b)"

datatype node = File | Dir

type_synonym filesystem = "path \<rightharpoonup> node"

definition os_path_exists :: "filesystem \<Rightarrow> path \<Rightarrow> bool" where
  "os_path_exists fs p = (fs p \<noteq> None)"

definition os_path_isdir :: "filesystem \<Rightarrow> path \<Rightarrow> bool" where
  "os_path_isdir fs p = (fs p = Some Dir)"

definition os_path_isfile :: "filesystem \<Rightarrow> path \<Rightarrow> bool" where
  "os_path_isfile fs p = (fs p = Some File)"

subsection \<open>The parsed command line\<close>

text \<open>The \<open>Namespace\<close> that \<open>parser.parse_args()\<close> returns, one field per \<open>dest\<close>.\<close>

record args =
  outdir :: path
  fasta :: path
  bamfiles :: "path list"
  minlength :: int
  minascore :: int
  subprocesses :: int
  nhiddens :: "int list"
  nlatent :: int
  nepochs :: int
  batchsize :: int
  capacity :: pyfloat
  mseratio :: pyfloat
  cuda :: bool
  tandem :: bool
  minsize :: int
  maxclusters :: int

text \<open>
  \<open>DEFAULT_PROCESSES = min(os.cpu_count(), 8)\<close>; \<open>os.cpu_count()\<close> is \<open>None\<close> when the number
  of CPUs cannot be determined, and \<open>min(None, 8)\<close> raises \<open>TypeError\<close>.
\<close>

definition DEFAULT_PROCESSES :: "int option \<Rightarrow> exn + int" where
  "DEFAULT_PROCESSES cpu_count =
     (case cpu_count of
        None \<Rightarrow> Inl (TypeError ''not supported between instances of int and NoneType'')
      | Some n \<Rightarrow> Inr (min n 8))"

text \<open>
  The double that the literal \<open>0.2\<close> denotes, the default of \<open>-r\<close>:
  \<open>3602879701896397 / 2 ^ 54\<close>.
\<close>

definition float_0_2 :: pyfloat where
  "float_0_2 = Finite (3602879701896397 / 18014398509481984)"

text \<open>
  The options of the parser, each with the value that \<open>argparse\<close> has converted with the
  option's \<open>type\<close>. The namespace starts from the defaults of the \<open>add_argument\<close> calls and
  every option on the command line stores its value under its \<open>dest\<close>
  (\<open>store_true\<close> for \<open>--cuda\<close> and \<open>--tandem\<close>). Converting the values is \<open>argparse\<close>'s work
  and is not modelled; how \<open>argparse\<close> splits the command line into positionals and options is
  modelled further down.
\<close>

datatype cli_option =
    Opt_m int
  | Opt_a int
  | Opt_p int
  | Opt_n "int list"
  | Opt_l int
  | Opt_e int
  | Opt_b int
  | Opt_s pyfloat
  | Opt_r pyfloat
  | Opt_cuda
  | Opt_tandem
  | Opt_i int
  | Opt_c int

definition defaults :: "int \<Rightarrow> path \<Rightarrow> path \<Rightarrow> path list \<Rightarrow> args" where
  "defaults default_processes od fa bams =
     \<lparr>outdir = od, fasta = fa, bamfiles = bams,
      minlength = 100, minascore = 50, subprocesses = default_processes,
      nhiddens = [325, 325, 325], nlatent = 40, nepochs = 400, batchsize = 128,
      capacity = Finite 1000, mseratio = float_0_2, cuda = False, tandem = False,
      minsize = 1, maxclusters = - 1\<rparr>"

fun store :: "cli_option \<Rightarrow> args \<Rightarrow> args" where
  "store (Opt_m v) a = a\<lparr>minlength := v\<rparr>"
| "store (Opt_a v) a = a\<lparr>minascore := v\<rparr>"
| "store (Opt_p v) a = a\<lparr>subprocesses := v\<rparr>"
| "store (Opt_n v) a = a\<lparr>nhiddens := v\<rparr>"
| "store (Opt_l v) a = a\<lparr>nlatent := v\<rparr>"
| "store (Opt_e v) a = a\<lparr>nepochs := v\<rparr>"
| "store (Opt_b v) a = a\<lparr>batchsize := v\<rparr>"
| "store (Opt_s v) a = a\<lparr>capacity := v\<rparr>"
| "store (Opt_r v) a = a\<lparr>mseratio := v\<rparr>"
| "store Opt_cuda a = a\<lparr>cuda := True\<rparr>"
| "store Opt_tandem a = a\<lparr>tandem := True\<rparr>"
| "store (Opt_i v) a = a\<lparr>minsize := v\<rparr>"
| "store (Opt_c v) a = a\<lparr>maxclusters := v\<rparr>"

definition parse_args :: "int \<Rightarrow> path \<Rightarrow> path \<Rightarrow> path list \<Rightarrow> cli_option list \<Rightarrow> args" where
  "parse_args default_processes od fa bams opts =
     fold store opts (defaults default_processes od fa bams)"

subsection \<open>How \<open>argparse\<close> splits the command line\<close>

text \<open>
  \<open>parser.parse_args()\<close> first sorts the strings of the command line into option strings
  and arguments, then consumes them from left to right: the arguments that precede the next
  option string go to the positionals that are still open (\<open>outdir\<close>, \<open>fasta\<close>, then
  \<open>bamfiles\<close> with \<open>nargs='+'\<close>, which takes every argument up to the next option string),
  and an option takes the arguments that follow it according to its \<open>nargs\<close>: none for
  \<open>--cuda\<close> and \<open>--tandem\<close>, all of them up to the next option string for \<open>-n\<close>, one for
  the others. Arguments that nothing takes, a missing positional and a missing option value
  make \<open>parse_args\<close> print the usage and exit with status 2.

  The model covers the command lines whose strings are the option strings of the parser
  written out in full, strings that do not start with \<open>-\<close>, and the single \<open>-\<close>. Any other
  string that starts with \<open>-\<close> (\<open>-h\<close>, \<open>--help\<close>, abbreviations, \<open>-m5\<close>, \<open>--\<close>, negative
  numbers) is outside it, and so is the conversion of the values with \<open>int\<close> and \<open>float\<close>:
  the values stay strings.
\<close>

datatype flag =
    Flag_m | Flag_a | Flag_p | Flag_n | Flag_l | Flag_e | Flag_b | Flag_s | Flag_r
  | Flag_cuda | Flag_tandem | Flag_i | Flag_c

definition flag_of :: "string \<Rightarrow> flag option" where
  "flag_of s =
     map_of [(''-m'', Flag_m), (''-a'', Flag_a), (''-p'', Flag_p), (''-n'', Flag_n),
             (''-l'', Flag_l), (''-e'', Flag_e), (''-b'', Flag_b), (''-s'', Flag_s),
             (''-r'', Flag_r), (''--cuda'', Flag_cuda), (''--tandem'', Flag_tandem),
             (''-i'', Flag_i), (''-c'', Flag_c)] s"

datatype nargs = Nargs_0 | Nargs_1 | Nargs_plus

fun nargs_of :: "flag \<Rightarrow> nargs" where
  "nargs_of Flag_cuda = Nargs_0"
| "nargs_of Flag_tandem = Nargs_0"
| "nargs_of Flag_n = Nargs_plus"
| "nargs_of f = Nargs_1"

datatype arg_class = Argument | Option_string flag | Outside

definition classify :: "string \<Rightarrow> arg_class" where
  "classify s =
     (if s = [] \<or> hd s \<noteq> CHR ''-'' then Argument
      else case flag_of s of
             Some f \<Rightarrow> Option_string f
           | None \<Rightarrow> if s = ''-'' then Argument else Outside)"

text \<open>
  The command line as the arguments before the first option string, followed by every
  option string with the arguments up to the next one.
\<close>

fun group_args :: "string list \<Rightarrow> (string list \<times> (flag \<times> string list) list) option" where
  "group_args [] = Some ([], [])"
| "group_args (s # rest) =
     (case group_args rest of
        None \<Rightarrow> None
      | Some (ws, segs) \<Rightarrow>
         (case classify s of
            Argument \<Rightarrow> Some (s # ws, segs)
          | Option_string f \<Rightarrow> Some ([], (f, ws) # segs)
          | Outside \<Rightarrow> None))"

text \<open>
  \<open>consume_positionals\<close>: while a positional is open, the arguments at hand all go to the
  positionals; once \<open>bamfiles\<close> has its values, arguments at hand are left over.
  \<open>consume_optional\<close>: the values of the option and the arguments that remain, or \<open>None\<close>
  when a value is expected and there is none.
\<close>

definition consume_positionals :: "string list \<Rightarrow> string list \<times> bool \<Rightarrow> string list \<times> bool" where
  "consume_positionals ws st =
     (case st of (positionals, extras) \<Rightarrow>
        if ws = [] then (positionals, extras)
        else if length positionals < 3 then (positionals @ ws, extras)
        else (positionals, True))"

definition consume_optional :: "flag \<Rightarrow> string list \<Rightarrow> (string list \<times> string list) option" where
  "consume_optional f ws =
     (case nargs_of f of
        Nargs_0 \<Rightarrow> Some ([], ws)
      | Nargs_1 \<Rightarrow> (case ws of [] \<Rightarrow> None | v # rest \<Rightarrow> Some ([v], rest))
      | Nargs_plus \<Rightarrow> (if ws = [] then None else Some (ws, [])))"

datatype split =
    Split path path "path list" "(flag \<times> string list) list"
  | Usage_error
  | Not_modelled

fun parse_segments ::
  "(flag \<times> string list) list \<Rightarrow> string list \<Rightarrow> (flag \<times> string list) list \<Rightarrow> bool \<Rightarrow> split" where
  "parse_segments [] positionals opts extras =
     (if extras \<or> length positionals < 3 then Usage_error
      else Split (positionals ! 0) (positionals ! 1) (drop 2 positionals) opts)"
| "parse_segments ((f, ws) # segs) positionals opts extras =
     (case consume_optional f ws of
        None \<Rightarrow> Usage_error
      | Some (vals, rest) \<Rightarrow>
         (case consume_positionals rest (positionals, extras) of
            (positionals', extras') \<Rightarrow>
              parse_segments segs positionals' (opts @ [(f, vals)]) extras'))"

definition split_argv :: "string list \<Rightarrow> split" where
  "split_argv argv =
     (case group_args argv of
        None \<Rightarrow> Not_modelled
      | Some (ws, segs) \<Rightarrow>
         (case consume_positionals ws ([], False) of
            (positionals, extras) \<Rightarrow> parse_segments segs positionals [] extras))"

subsection \<open>Validation (the module-level checks before \<open>os.mkdir\<close>)\<close>

fun check_bamfiles :: "filesystem \<Rightarrow> path list \<Rightarrow> exn option" where
  "check_bamfiles fs [] = None"
| "check_bamfiles fs (bampath # rest) =
     (if \<not> os_path_isfile fs bampath then Some (FileNotFoundError bampath)
      else check_bamfiles fs rest)"

text \<open>
  The checks in the order of the script. The two messages built from \<open>args.hidden\<close> and
  \<open>args.latent\<close> read attributes that the namespace does not have (the fields are
  \<open>nhiddens\<close> and \<open>nlatent\<close>), so evaluating the argument of \<open>raise\<close> raises
  \<open>AttributeError\<close> before the \<open>ArgumentTypeError\<close> is constructed.
\<close>

definition validate :: "filesystem \<Rightarrow> bool \<Rightarrow> args \<Rightarrow> exn + unit" where
  "validate fs cuda_is_available a =
     (if os_path_exists fs (outdir a) then Inl (FileExistsError (outdir a))
      else let parentdir = os_path_dirname (outdir a) in
      if parentdir \<noteq> [] \<and> \<not> os_path_isdir fs parentdir then Inl (NotADirectoryError parentdir)
      else if \<not> os_path_isfile fs (fasta a) then Inl (FileNotFoundError (fasta a))
      else case check_bamfiles fs (bamfiles a) of
        Some e \<Rightarrow> Inl e
      | None \<Rightarrow>
     (if minlength a < 100
        then Inl (ArgumentTypeError ''Minimum contig length must be at least 100'')
      else if subprocesses a < 1
        then Inl (ArgumentTypeError ''Zero or negative subprocesses requested.'')
      else if minascore a < 0
        then Inl (ArgumentTypeError ''Minimum alignment score cannot be negative'')
      else if list_ex (\<lambda>i. i < 1) (nhiddens a)
        then Inl (AttributeError ''hidden'')
      else if nlatent a < 1
        then Inl (AttributeError ''latent'')
      else if nepochs a < 1
        then Inl (ArgumentTypeError (''Minimum 1 epoch, not '' @ str_int (nepochs a)))
      else if batchsize a < 1
        then Inl (ArgumentTypeError (''Minimum batchsize of 1, not '' @ str_int (batchsize a)))
      else if float_lt (capacity a) 0
        then Inl (ArgumentTypeError ''Capacity cannot be negative'')
      else if float_le (mseratio a) 0 \<or> float_ge (mseratio a) 1
        then Inl (ArgumentTypeError ''MSE ratio must be above 0 and below 1'')
      else if cuda a \<and> \<not> cuda_is_available
        then Inl (ModuleNotFoundError ''Cuda is not available for PyTorch'')
      else if minsize a < 1
        then Inl (ArgumentTypeError ''Minimum cluster size must be at least 0.'')
      else Inr ()))"

subsection \<open>Effects\<close>

text \<open>
  The lines that the script prints to the log file, one constructor per \<open>print\<close> call with
  the values that are formatted into the line. The elapsed seconds and the date read the
  clock and are left out.
\<close>

datatype logline =
    Starting_Vamb_version "int list"
  | Date_and_time_is
  | Calculating_TNF
  | Processed_bases_in_contigs int nat
  | Calculated_TNF_in_seconds
  | Calculating_RPKM
  | Parsing_BAM_files_with_subprocesses nat int
  | Calculated_RPKM_in_seconds
  | Training_VAE
  | Trained_VAE_and_encoded_in_seconds
  | Clustering
  | Clustered_contigs_in_bins int int
  | Clustered_contigs_in_seconds
  | Completed_Vamb_in_seconds

text \<open>
  What the process does to the outside, in the order in which it does it. A \<open>Call\<close> event
  is recorded when the function of the package is called; \<open>Mkdir\<close>, \<open>Open_write\<close>,
  \<open>Open_read\<close> and \<open>Write_npz\<close> are recorded when the operation has succeeded (the
  directory is made, the file is open, \<open>write_npz\<close> has returned).
  \<open>Call_trainvae\<close> carries the \<open>modelfile\<close> path handed to the training.
\<close>

datatype event =
    Print logline
  | Print_help
  | Mkdir path
  | Open_write path
  | Open_read path
  | Call_read_contigs
  | Write_npz path
  | Call_read_bamfiles
  | Call_trainvae path
  | Call_encode
  | Call_cluster
  | Call_write_clusters

record world =
  files :: filesystem
  trace :: "event list"

definition emit :: "event \<Rightarrow> world \<Rightarrow> world" where
  "emit e w = w\<lparr>trace := trace w @ [e]\<rparr>"

text \<open>
  \<open>os.mkdir\<close> and \<open>open\<close>. Paths are the keys of the file system as the script writes them;
  the directory in which a directory or a file is created is taken to exist. The failures
  of the real calls on an empty path, on a dangling symbolic link or for lack of permission
  are not modelled.
\<close>

definition os_mkdir :: "path \<Rightarrow> world \<Rightarrow> exn option \<times> world" where
  "os_mkdir p w =
     (if files w p \<noteq> None then (Some (FileExistsError p), w)
      else (None, emit (Mkdir p) (w\<lparr>files := (files w)(p \<mapsto> Dir)\<rparr>)))"

definition open_w :: "path \<Rightarrow> world \<Rightarrow> exn option \<times> world" where
  "open_w p w =
     (if files w p = Some Dir then (Some (IsADirectoryError p), w)
      else (None, emit (Open_write p) (w\<lparr>files := (files w)(p \<mapsto> File)\<rparr>)))"

definition open_rb :: "path \<Rightarrow> world \<Rightarrow> exn option \<times> world" where
  "open_rb p w =
     (case files w p of
        None \<Rightarrow> (Some (FileNotFoundError p), w)
      | Some Dir \<Rightarrow> (Some (IsADirectoryError p), w)
      | Some File \<Rightarrow> (None, emit (Open_read p) w))"

subsection \<open>The functions of the package \<open>vamb\<close>\<close>

text \<open>
  The script calls \<open>vamb.parsecontigs.read_contigs\<close>, \<open>vamb.vambtools.write_npz\<close>,
  \<open>vamb.parsebam.read_bamfiles\<close>, \<open>vamb.encode.trainvae\<close>, the method \<open>encode\<close> of the
  trained model, \<open>vamb.cluster.cluster\<close> and \<open>vamb.cluster.write_clusters\<close>, and reads
  \<open>vamb.__version__\<close>. Their code is not part of the script: each is a parameter, a function
  from the arguments of the call to the value returned or the exception raised. The types
  \<open>'v\<close>, \<open>'d\<close> and \<open>'i\<close> are the trained model, the data loader and the cluster iterator.
\<close>

record ('v, 'd, 'i) collab =
  version :: "int list"
  read_contigs :: "path \<Rightarrow> int \<Rightarrow> exn + (matrix \<times> string list \<times> int list)"
  write_npz :: "path \<Rightarrow> matrix \<Rightarrow> exn option"
  read_bamfiles :: "path list \<Rightarrow> int \<Rightarrow> int \<Rightarrow> int \<Rightarrow> exn + matrix"
  encode_trainvae :: "matrix \<Rightarrow> matrix \<Rightarrow> int list \<Rightarrow> int \<Rightarrow> int \<Rightarrow> int \<Rightarrow> bool
                        \<Rightarrow> pyfloat \<Rightarrow> pyfloat \<Rightarrow> path \<Rightarrow> exn + ('v \<times> 'd)"
  vae_encode :: "'v \<Rightarrow> 'd \<Rightarrow> exn + matrix"
  cluster_cluster :: "matrix \<Rightarrow> string list \<Rightarrow> exn + 'i"
  write_clusters :: "path \<Rightarrow> 'i \<Rightarrow> int \<Rightarrow> int \<Rightarrow> exn + (int \<times> int)"

text \<open>A call of \<open>write_npz\<close>: the file is there once the call has returned.\<close>

definition save_npz :: "('v, 'd, 'i) collab \<Rightarrow> path \<Rightarrow> matrix \<Rightarrow> world \<Rightarrow> exn option \<times> world" where
  "save_npz c p m w =
     (case write_npz c p m of
        Some e \<Rightarrow> (Some e, w)
      | None \<Rightarrow> (None, emit (Write_npz p) (w\<lparr>files := (files w)(p \<mapsto> File)\<rparr>)))"

subsection \<open>The four stages and \<open>main\<close>\<close>

definition calc_tnf ::
  "('v, 'd, 'i) collab \<Rightarrow> path \<Rightarrow> path \<Rightarrow> int \<Rightarrow> world
     \<Rightarrow> (exn + (matrix \<times> string list)) \<times> world" where
  "calc_tnf c od fastapath mincontiglength w0 =
     (let w1 = emit (Print Calculating_TNF) w0 in
      case open_rb fastapath w1 of
        (Some e, w2) \<Rightarrow> (Inl e, w2)
      | (None, w2) \<Rightarrow>
       (let w3 = emit Call_read_contigs w2 in
        case read_contigs c fastapath mincontiglength of
          Inl e \<Rightarrow> (Inl e, w3)
        | Inr (tnfs, contignames, contiglengths) \<Rightarrow>
         (case save_npz c (os_path_join od ''tnf.npz'') tnfs w3 of
            (Some e, w4) \<Rightarrow> (Inl e, w4)
          | (None, w4) \<Rightarrow>
           (let ncontigs = length contiglengths;
                nbases = sum_list contiglengths;
                w5 = emit (Print (Processed_bases_in_contigs nbases ncontigs)) w4;
                w6 = emit (Print Calculated_TNF_in_seconds) w5
            in (Inr (tnfs, contignames), w6)))))"

definition calc_rpkm ::
  "('v, 'd, 'i) collab \<Rightarrow> path \<Rightarrow> path list \<Rightarrow> int \<Rightarrow> int \<Rightarrow> int \<Rightarrow> nat \<Rightarrow> world
     \<Rightarrow> (exn + matrix) \<times> world" where
  "calc_rpkm c od bampaths mincontiglength minalignscore nsubprocesses ncontigs w0 =
     (let w1 = emit (Print Calculating_RPKM) w0;
          w2 = emit (Print (Parsing_BAM_files_with_subprocesses (length bampaths) nsubprocesses)) w1;
          w3 = emit Call_read_bamfiles w2
      in case read_bamfiles c bampaths minalignscore mincontiglength nsubprocesses of
        Inl e \<Rightarrow> (Inl e, w3)
      | Inr rpkms \<Rightarrow>
         (if length rpkms \<noteq> ncontigs
          then (Inl (ValueError (''Number of FASTA vs BAM file headers do not match. '' @
                                 ''Are you sure the BAM files originate from same FASTA file '' @
                                 ''and have headers?'')), w3)
          else
           (case save_npz c (os_path_join od ''rpkm.npz'') rpkms w3 of
              (Some e, w4) \<Rightarrow> (Inl e, w4)
            | (None, w4) \<Rightarrow> (Inr rpkms, emit (Print Calculated_RPKM_in_seconds) w4))))"

definition trainvae ::
  "('v, 'd, 'i) collab \<Rightarrow> path \<Rightarrow> matrix \<Rightarrow> matrix \<Rightarrow> int list \<Rightarrow> int \<Rightarrow> int \<Rightarrow> int \<Rightarrow> bool
     \<Rightarrow> pyfloat \<Rightarrow> pyfloat \<Rightarrow> world \<Rightarrow> (exn + matrix) \<times> world" where
  "trainvae c od rpkms tnfs hiddens latentdim epochs bsize use_cuda cap ratio w0 =
     (let w1 = emit (Print Training_VAE) w0;
          modelpath = os_path_join od ''model.pt'';
          w2 = emit (Call_trainvae modelpath) w1
      in case encode_trainvae c rpkms tnfs hiddens latentdim epochs bsize use_cuda cap ratio
                modelpath of
        Inl e \<Rightarrow> (Inl e, w2)
      | Inr (vae, dataloader) \<Rightarrow>
         (let w3 = emit Call_encode w2 in
          case vae_encode c vae dataloader of
            Inl e \<Rightarrow> (Inl e, w3)
          | Inr latent \<Rightarrow>
             (case save_npz c (os_path_join od ''latent.npz'') latent w3 of
                (Some e, w4) \<Rightarrow> (Inl e, w4)
              | (None, w4) \<Rightarrow>
                  (Inr latent, emit (Print Trained_VAE_and_encoded_in_seconds) w4))))"

definition cluster ::
  "('v, 'd, 'i) collab \<Rightarrow> path \<Rightarrow> matrix \<Rightarrow> string list \<Rightarrow> int \<Rightarrow> int \<Rightarrow> world
     \<Rightarrow> (exn + unit) \<times> world" where
  "cluster c od latent contignames nmaxclusters minclustersize w0 =
     (let w1 = emit (Print Clustering) w0;
          w2 = emit Call_cluster w1
      in case cluster_cluster c latent contignames of
        Inl e \<Rightarrow> (Inl e, w2)
      | Inr clusteriterator \<Rightarrow>
         (case open_w (os_path_join od ''clusters.tsv'') w2 of
            (Some e, w3) \<Rightarrow> (Inl e, w3)
          | (None, w3) \<Rightarrow>
             (let w4 = emit Call_write_clusters w3 in
              case write_clusters c (os_path_join od ''clusters.tsv'') clusteriterator
                     nmaxclusters minclustersize of
                Inl e \<Rightarrow> (Inl e, w4)
              | Inr (clusternumber, ncontigs) \<Rightarrow>
                 (let w5 = emit (Print (Clustered_contigs_in_bins ncontigs clusternumber)) w4;
                      w6 = emit (Print Clustered_contigs_in_seconds) w5
                  in (Inr (), w6)))))"

definition main ::
  "('v, 'd, 'i) collab \<Rightarrow> path \<Rightarrow> path \<Rightarrow> path list \<Rightarrow> int \<Rightarrow> int \<Rightarrow> int \<Rightarrow> int list \<Rightarrow> int
     \<Rightarrow> int \<Rightarrow> int \<Rightarrow> bool \<Rightarrow> pyfloat \<Rightarrow> pyfloat \<Rightarrow> int \<Rightarrow> int \<Rightarrow> world
     \<Rightarrow> (exn + unit) \<times> world" where
  "main c od fastapath bampaths mincontiglength minalignscore nsubprocesses hiddens latentdim
        epochs bsize use_cuda cap ratio minclustersize nmaxclusters w0 =
     (let w1 = emit (Print (Starting_Vamb_version (version c))) w0;
          w2 = emit (Print Date_and_time_is) w1
      in case calc_tnf c od fastapath mincontiglength w2 of
        (Inl e, w3) \<Rightarrow> (Inl e, w3)
      | (Inr (tnfs, contignames), w3) \<Rightarrow>
         (case calc_rpkm c od bampaths mincontiglength minalignscore nsubprocesses
                  (length contignames) w3 of
            (Inl e, w4) \<Rightarrow> (Inl e, w4)
          | (Inr rpkms, w4) \<Rightarrow>
             (case trainvae c od rpkms tnfs hiddens latentdim epochs bsize use_cuda cap
                      ratio w4 of
                (Inl e, w5) \<Rightarrow> (Inl e, w5)
              | (Inr latent, w5) \<Rightarrow>
                 (case cluster c od latent contignames nmaxclusters minclustersize w5 of
                    (Inl e, w6) \<Rightarrow> (Inl e, w6)
                  | (Inr u, w6) \<Rightarrow> (Inr (), emit (Print Completed_Vamb_in_seconds) w6)))))"

subsection \<open>The script\<close>

text \<open>
  After \<open>parse_args\<close>: the checks, \<open>os.mkdir\<close>, the log file, \<open>main\<close>. The result is the
  exception the process ends with, if any, and the world it leaves behind; the trace starts
  empty.
\<close>

definition script ::
  "('v, 'd, 'i) collab \<Rightarrow> filesystem \<Rightarrow> bool \<Rightarrow> args \<Rightarrow> exn option \<times> world" where
  "script c fs0 cuda_is_available a =
     (let w0 = \<lparr>files = fs0, trace = []\<rparr> in
      case validate fs0 cuda_is_available a of
        Inl e \<Rightarrow> (Some e, w0)
      | Inr u \<Rightarrow>
         (case os_mkdir (outdir a) w0 of
            (Some e, w1) \<Rightarrow> (Some e, w1)
          | (None, w1) \<Rightarrow>
             (let logpath = os_path_join (outdir a) ''log.txt'' in
              case open_w logpath w1 of
                (Some e, w2) \<Rightarrow> (Some e, w2)
              | (None, w2) \<Rightarrow>
                 (case main c (outdir a) (fasta a) (bamfiles a) (minlength a) (minascore a)
                          (subprocesses a) (nhiddens a) (nlatent a) (nepochs a) (batchsize a)
                          (cuda a) (capacity a) (mseratio a) (minsize a) (maxclusters a) w2 of
                    (Inl e, w3) \<Rightarrow> (Some e, w3)
                  | (Inr u, w3) \<Rightarrow> (None, w3)))))"

text \<open>
  The whole module: \<open>DEFAULT_PROCESSES\<close>, the help text when there is no argument
  (\<open>sys.exit()\<close> raises \<open>SystemExit\<close>), \<open>parse_args\<close>, then the script above.
\<close>

datatype invocation =
    No_arguments
  | Command_line path path "path list" "cli_option list"

definition run ::
  "('v, 'd, 'i) collab \<Rightarrow> filesystem \<Rightarrow> bool \<Rightarrow> int option \<Rightarrow> invocation
     \<Rightarrow> exn option \<times> world" where
  "run c fs0 cuda_is_available cpu_count cmd =
     (case DEFAULT_PROCESSES cpu_count of
        Inl e \<Rightarrow> (Some e, \<lparr>files = fs0, trace = []\<rparr>)
      | Inr default_processes \<Rightarrow>
         (case cmd of
            No_arguments \<Rightarrow> (Some SystemExit, \<lparr>files = fs0, trace = [Print_help]\<rparr>)
          | Command_line od fa bams opts \<Rightarrow>
              script c fs0 cuda_is_available (parse_args default_processes od fa bams opts)))"

subsection \<open>Reading a trace\<close>

text \<open>The events of a trace other than the lines printed to the log.\<close>

fun is_print :: "event \<Rightarrow> bool" where
  "is_print (Print l) = True"
| "is_print e = False"

definition effects :: "event list \<Rightarrow> event list" where
  "effects t = filter (\<lambda>e. \<not> is_print e) t"

text \<open>The decimal digits that occur in a message.\<close>

definition digits_in :: "string \<Rightarrow> string" where
  "digits_in s = filter (\<lambda>ch. ch \<in> set ''0123456789'') s"

subsection \<open>Concrete inputs\<close>

text \<open>
  A file system with a FASTA file and a BAM file, the namespace of
  \<open>run.py out contigs.fna reads.bam\<close> on a machine with eight CPUs, and a package whose
  functions all succeed on two contigs.
\<close>

definition example_fs :: filesystem where
  "example_fs = [''contigs.fna'' \<mapsto> File, ''reads.bam'' \<mapsto> File]"

definition example_args :: args where
  "example_args = parse_args 8 ''out'' ''contigs.fna'' [''reads.bam''] []"

definition example_collab :: "(unit, unit, unit) collab" where
  "example_collab =
     \<lparr>version = [1, 0, 1],
      read_contigs = (\<lambda>p m. Inr ([[1 / 2], [1 / 4]], [''contig1'', ''contig2''], [150, 200])),
      write_npz = (\<lambda>p m. None),
      read_bamfiles = (\<lambda>ps s m n. Inr [[3], [4]]),
      encode_trainvae = (\<lambda>r t h l e b cu ca ms mp. Inr ((), ())),
      vae_encode = (\<lambda>v d. Inr [[0], [1]]),
      cluster_cluster = (\<lambda>l ns. Inr ()),
      write_clusters = (\<lambda>p i mx mn. Inr (1, 2))\<rparr>"

text \<open>The same package with alignment files that list one reference only.\<close>

definition mismatch_collab :: "(unit, unit, unit) collab" where
  "mismatch_collab = example_collab\<lparr>read_bamfiles := (\<lambda>ps s m n. Inr [[3]])\<rparr>"

text \<open>
  The world before \<open>main\<close> has done anything, and the package in which the function of the
  given name raises an exception while the others succeed as above.
\<close>

definition example_world :: world where
  "example_world = \<lparr>files = example_fs, trace = []\<rparr>"


section \<open>Properties\<close>

text \<open>The definitions to unfold when a stage or a concrete run is evaluated.\<close>

lemmas stage_defs = calc_tnf_def calc_rpkm_def trainvae_def cluster_def open_rb_def open_w_def
  save_npz_def emit_def Let_def

lemmas example_defs = run_def DEFAULT_PROCESSES_def parse_args_def defaults_def float_0_2_def
  script_def validate_def os_path_exists_def os_path_isdir_def os_path_isfile_def
  os_path_dirname_def os_path_join_def os_mkdir_def main_def stage_defs
  example_fs_def example_args_def example_collab_def mismatch_collab_def

lemmas split_defs = split_argv_def classify_def flag_of_def consume_positionals_def
  consume_optional_def

subsection \<open>Validation\<close>

lemma check_bamfiles_None: "check_bamfiles fs bs = None \<longleftrightarrow> (\<forall>b\<in>set bs. os_path_isfile fs b)"
  by (induction bs) auto

lemma check_bamfiles_Some: "check_bamfiles fs bs = Some e \<Longrightarrow> \<exists>b. e = FileNotFoundError b"
  by (induction bs) (auto split: if_splits)

lemma dirname_bare: "CHR ''/'' \<notin> set p \<Longrightarrow> os_path_dirname p = []"
proof -
  assume "CHR ''/'' \<notin> set p"
  then have "dropWhile (\<lambda>c. c \<noteq> CHR ''/'') (rev p) = []"
    by (auto simp add: dropWhile_eq_Nil_conv)
  then show ?thesis by (simp add: os_path_dirname_def)
qed

text \<open>
  The checks accept a namespace exactly when the output path does not exist, its directory
  part is empty or an existing directory, the FASTA file and every BAM file are files, and
  the numbers are within their bounds.
\<close>

lemma if_Inl_eq_Inr: "((if b then Inl x else y) = Inr z) = (\<not> b \<and> y = Inr z)"
  by simp

lemma case_opt_Inl_eq_Inr:
  "((case v of Some e \<Rightarrow> Inl e | None \<Rightarrow> y) = Inr z) = (v = None \<and> y = Inr z)"
  by (cases v) simp_all

lemma validate_accepts_iff:
  "validate fs cu a = Inr () \<longleftrightarrow>
     \<not> os_path_exists fs (outdir a)
   \<and> (os_path_dirname (outdir a) = [] \<or> os_path_isdir fs (os_path_dirname (outdir a)))
   \<and> os_path_isfile fs (fasta a)
   \<and> (\<forall>b\<in>set (bamfiles a). os_path_isfile fs b)
   \<and> 100 \<le> minlength a \<and> 1 \<le> subprocesses a \<and> 0 \<le> minascore a
   \<and> (\<forall>i\<in>set (nhiddens a). 1 \<le> i) \<and> 1 \<le> nlatent a \<and> 1 \<le> nepochs a \<and> 1 \<le> batchsize a
   \<and> \<not> float_lt (capacity a) 0
   \<and> \<not> float_le (mseratio a) 0 \<and> \<not> float_ge (mseratio a) 1
   \<and> (cuda a \<longrightarrow> cu)
   \<and> 1 \<le> minsize a"
  unfolding validate_def Let_def if_Inl_eq_Inr case_opt_Inl_eq_Inr check_bamfiles_None
    list_ex_iff
  by (simp add: not_less cong: conj_cong)

lemma mseratio_bounds_examples:
  "validate example_fs False (parse_args 8 ''out'' ''contigs.fna'' [''reads.bam''] [Opt_r (Finite 0)])
     = Inl (ArgumentTypeError ''MSE ratio must be above 0 and below 1'')"
  "validate example_fs False (parse_args 8 ''out'' ''contigs.fna'' [''reads.bam''] [Opt_r (Finite 1)])
     = Inl (ArgumentTypeError ''MSE ratio must be above 0 and below 1'')"
  "validate example_fs False (parse_args 8 ''out'' ''contigs.fna'' [''reads.bam''] [Opt_r (Finite (1 / 2))])
     = Inr ()"
  by (simp_all add: validate_def example_fs_def parse_args_def defaults_def os_path_exists_def
      os_path_isdir_def os_path_isfile_def os_path_dirname_def float_0_2_def)

text \<open>
  C3. Validation is to reject the listed inputs, each with a descriptive error that
  identifies the offending field. For a hidden-layer width below 1 and for a latent
  dimensionality below 1 the script does reject, but with an \<open>AttributeError\<close> about the
  namespace instead of the message it was building: on
  \<open>run.py out contigs.fna reads.bam -n 325 0\<close> and on \<open>run.py out contigs.fna reads.bam -l 0\<close>,
  with both input files present, the checks end with
  \<open>AttributeError\<close> for the attributes \<open>hidden\<close> and \<open>latent\<close>.
\<close>

theorem hidden_width_zero_raises_AttributeError:
  "validate example_fs False
     (parse_args 8 ''out'' ''contigs.fna'' [''reads.bam''] [Opt_n [325, 0]])
     = Inl (AttributeError ''hidden'')
   \<and> validate example_fs False
     (parse_args 8 ''out'' ''contigs.fna'' [''reads.bam''] [Opt_l 0])
     = Inl (AttributeError ''latent'')"
  by (simp add: validate_def example_fs_def parse_args_def defaults_def os_path_exists_def
      os_path_isdir_def os_path_isfile_def os_path_dirname_def)

text \<open>
  C8. When the checks before it pass and a hidden-layer width is below 1, validation raises
  \<open>AttributeError\<close> for the attribute \<open>hidden\<close>; when moreover all widths are at least 1 and
  the latent dimensionality is below 1, it raises \<open>AttributeError\<close> for the attribute
  \<open>latent\<close>. The \<open>ArgumentTypeError\<close> with the message \<open>Minimum 1 neuron per layer, not ...\<close> or
  \<open>Minimum 1 latent neuron, not ...\<close> is never raised.
\<close>

theorem hidden_and_latent_checks_raise_AttributeError:
  assumes "\<not> os_path_exists fs (outdir a)"
    and "os_path_dirname (outdir a) = [] \<or> os_path_isdir fs (os_path_dirname (outdir a))"
    and "os_path_isfile fs (fasta a)"
    and "\<forall>b\<in>set (bamfiles a). os_path_isfile fs b"
    and "100 \<le> minlength a" and "1 \<le> subprocesses a" and "0 \<le> minascore a"
  shows "((\<exists>i\<in>set (nhiddens a). i < 1) \<longrightarrow>
            validate fs cu a = Inl (AttributeError ''hidden''))
       \<and> ((\<forall>i\<in>set (nhiddens a). 1 \<le> i) \<and> nlatent a < 1 \<longrightarrow>
            validate fs cu a = Inl (AttributeError ''latent''))
       \<and> (\<forall>s. validate fs cu a \<noteq> Inl (ArgumentTypeError (''Minimum 1 neuron per layer, not '' @ s)))
       \<and> (\<forall>s. validate fs cu a \<noteq> Inl (ArgumentTypeError (''Minimum 1 latent neuron, not '' @ s)))"
proof -
  have b: "check_bamfiles fs (bamfiles a) = None"
    using assms(4) by (simp add: check_bamfiles_None)
  have p: "(os_path_dirname (outdir a) \<noteq> [] \<and>
            \<not> os_path_isdir fs (os_path_dirname (outdir a))) = False"
    using assms(2) by blast
  have n: "\<not> minlength a < 100" "\<not> subprocesses a < 1" "\<not> minascore a < 0"
    using assms(5,6,7) by simp_all
  note pre = validate_def Let_def assms(1,3) b p n
  have h: "(\<exists>i\<in>set (nhiddens a). i < 1) \<longrightarrow>
             validate fs cu a = Inl (AttributeError ''hidden'')"
    by (auto simp add: pre list_ex_iff)
  have l: "(\<forall>i\<in>set (nhiddens a). 1 \<le> i) \<and> nlatent a < 1 \<longrightarrow>
             validate fs cu a = Inl (AttributeError ''latent'')"
  proof (intro impI, elim conjE)
    assume wide: "\<forall>i\<in>set (nhiddens a). 1 \<le> i" and small: "nlatent a < 1"
    from wide have "\<not> list_ex (\<lambda>i. i < 1) (nhiddens a)"
      by (fastforce simp add: list_ex_iff)
    with small show "validate fs cu a = Inl (AttributeError ''latent'')"
      by (simp add: pre)
  qed
  have m1: "\<forall>s. validate fs cu a \<noteq>
                 Inl (ArgumentTypeError (''Minimum 1 neuron per layer, not '' @ s))"
    by (simp add: pre)
  have m2: "\<forall>s. validate fs cu a \<noteq>
                 Inl (ArgumentTypeError (''Minimum 1 latent neuron, not '' @ s))"
    by (simp add: pre)
  from h l m1 m2 show ?thesis by blast
qed

theorem hidden_and_latent_checks_raise_AttributeError_witness:
  "validate example_fs False (example_args\<lparr>nhiddens := [325, 0]\<rparr>) = Inl (AttributeError ''hidden'')
   \<and> validate example_fs False (example_args\<lparr>nlatent := 0\<rparr>) = Inl (AttributeError ''latent'')"
proof -
  note d = example_args_def example_fs_def parse_args_def defaults_def os_path_exists_def
    os_path_isdir_def os_path_isfile_def os_path_dirname_def
  let ?a = "example_args\<lparr>nhiddens := [325, 0]\<rparr>"
  let ?b = "example_args\<lparr>nlatent := 0\<rparr>"
  have ha: "\<not> os_path_exists example_fs (outdir ?a)"
    "os_path_dirname (outdir ?a) = [] \<or> os_path_isdir example_fs (os_path_dirname (outdir ?a))"
    "os_path_isfile example_fs (fasta ?a)"
    "\<forall>b\<in>set (bamfiles ?a). os_path_isfile example_fs b"
    "100 \<le> minlength ?a" "1 \<le> subprocesses ?a" "0 \<le> minascore ?a"
    by (simp_all add: d)
  have hb: "\<not> os_path_exists example_fs (outdir ?b)"
    "os_path_dirname (outdir ?b) = [] \<or> os_path_isdir example_fs (os_path_dirname (outdir ?b))"
    "os_path_isfile example_fs (fasta ?b)"
    "\<forall>b\<in>set (bamfiles ?b). os_path_isfile example_fs b"
    "100 \<le> minlength ?b" "1 \<le> subprocesses ?b" "0 \<le> minascore ?b"
    by (simp_all add: d)
  have wa: "\<exists>i\<in>set (nhiddens ?a). i < 1" by (simp add: d)
  have wb: "(\<forall>i\<in>set (nhiddens ?b). 1 \<le> i) \<and> nlatent ?b < 1" by (simp add: d)
  from wa wb
    hidden_and_latent_checks_raise_AttributeError [OF ha, of False]
    hidden_and_latent_checks_raise_AttributeError [OF hb, of False]
  show ?thesis by blast
qed

text \<open>
  C10. When the output path contains no slash, \<open>os.path.dirname\<close> gives the empty string,
  the parent-directory check is skipped, and validation does not raise
  \<open>NotADirectoryError\<close>, whatever the file system holds.
\<close>

theorem bare_outdir_skips_parent_check:
  "CHR ''/'' \<notin> set (outdir a) \<Longrightarrow>
     os_path_dirname (outdir a) = [] \<and>
     (\<forall>fs cu p. validate fs cu a \<noteq> Inl (NotADirectoryError p))"
proof
  assume bare: "CHR ''/'' \<notin> set (outdir a)"
  show d: "os_path_dirname (outdir a) = []" using bare by (rule dirname_bare)
  show "\<forall>fs cu p. validate fs cu a \<noteq> Inl (NotADirectoryError p)"
  proof (intro allI)
    fix fs cu p
    show "validate fs cu a \<noteq> Inl (NotADirectoryError p)"
    proof (cases "check_bamfiles fs (bamfiles a)")
      case None
      then show ?thesis by (simp add: validate_def d)
    next
      case (Some e)
      then obtain b where "e = FileNotFoundError b" using check_bamfiles_Some by blast
      with Some show ?thesis by (simp add: validate_def d)
    qed
  qed
qed

theorem bare_outdir_skips_parent_check_witness:
  "CHR ''/'' \<notin> set (outdir example_args) \<and> os_path_dirname (outdir example_args) = [] \<and>
   validate Map.empty False example_args \<noteq> Inl (NotADirectoryError [])"
proof -
  have h: "CHR ''/'' \<notin> set (outdir example_args)"
    by (simp add: example_args_def parse_args_def defaults_def)
  show ?thesis using h bare_outdir_skips_parent_check [OF h] by simp
qed

lemma script_rejects:
  "validate fs cu a = Inl e \<Longrightarrow> script c fs cu a = (Some e, \<lparr>files = fs, trace = []\<rparr>)"
  unfolding script_def by simp

text \<open>
  C2. When a check of the validation fails, the process ends with that exception before
  \<open>os.mkdir\<close> and before any stage: the trace is empty, so no directory has been made and no
  artifact has been written, and the files are what they were. In particular an output
  directory that did not exist before the invocation does not exist after it.
\<close>

theorem failed_validation_changes_nothing:
  "validate fs cu (parse_args (min n 8) od fa bams opts) = Inl e \<Longrightarrow>
     run c fs cu (Some n) (Command_line od fa bams opts) = (Some e, \<lparr>files = fs, trace = []\<rparr>)
   \<and> os_path_exists (files (snd (run c fs cu (Some n) (Command_line od fa bams opts)))) od
       = os_path_exists fs od
   \<and> (\<not> os_path_exists fs od \<longrightarrow>
        \<not> os_path_exists (files (snd (run c fs cu (Some n) (Command_line od fa bams opts)))) od)"
  by (simp add: run_def DEFAULT_PROCESSES_def script_rejects)

theorem failed_validation_changes_nothing_witness:
  "validate example_fs False
     (parse_args (min 8 8) ''out'' ''contigs.fna'' [''reads.bam''] [Opt_r (Finite 1)])
     = Inl (ArgumentTypeError ''MSE ratio must be above 0 and below 1'')
   \<and> run example_collab example_fs False (Some 8)
       (Command_line ''out'' ''contigs.fna'' [''reads.bam''] [Opt_r (Finite 1)])
     = (Some (ArgumentTypeError ''MSE ratio must be above 0 and below 1''),
        \<lparr>files = example_fs, trace = []\<rparr>)
   \<and> \<not> os_path_exists (files (snd (run example_collab example_fs False (Some 8)
       (Command_line ''out'' ''contigs.fna'' [''reads.bam''] [Opt_r (Finite 1)])))) ''out''"
proof -
  have h: "validate example_fs False
     (parse_args (min 8 8) ''out'' ''contigs.fna'' [''reads.bam''] [Opt_r (Finite 1)])
     = Inl (ArgumentTypeError ''MSE ratio must be above 0 and below 1'')"
    by (simp add: validate_def example_fs_def parse_args_def defaults_def os_path_exists_def
      os_path_isdir_def os_path_isfile_def os_path_dirname_def)
  have n: "\<not> os_path_exists example_fs ''out''"
    by (simp add: example_fs_def os_path_exists_def)
  from h n failed_validation_changes_nothing [OF h, of example_collab]
  show ?thesis by simp
qed

subsection \<open>The command line\<close>

text \<open>
  C6. With no option on the command line the script runs with the namespace of the defaults:
  minimum contig length 100, minimum alignment score 50, \<open>min(cpu count, 8)\<close> subprocesses,
  hidden layers 325, 325, 325, 40 latent neurons, 400 epochs, batch size 128, capacity 1000.0,
  weighting ratio 0.2 (the double nearest to it, within \<open>2 ^ -56\<close>), no \<open>--cuda\<close>, minimum
  cluster size 1 and maximum cluster count -1.
\<close>

theorem defaults_without_options:
  "run c fs0 cu (Some n) (Command_line od fa bams []) =
     script c fs0 cu
       \<lparr>outdir = od, fasta = fa, bamfiles = bams,
        minlength = 100, minascore = 50, subprocesses = min n 8,
        nhiddens = [325, 325, 325], nlatent = 40, nepochs = 400, batchsize = 128,
        capacity = Finite 1000, mseratio = Finite (3602879701896397 / 18014398509481984),
        cuda = False, tandem = False, minsize = 1, maxclusters = - 1\<rparr>
   \<and> \<bar>3602879701896397 / 18014398509481984 - 2 / 10\<bar> \<le> (1 / 2 ^ 56 :: rat)"
  by (simp add: run_def DEFAULT_PROCESSES_def parse_args_def defaults_def float_0_2_def)

text \<open>
  The flag \<open>--tandem\<close> only sets the field \<open>tandem\<close> of the namespace, and neither the checks
  nor the call of \<open>main\<close> read that field.
\<close>

lemma store_tandem: "store x (a\<lparr>tandem := t\<rparr>) = (store x a)\<lparr>tandem := (t \<or> Opt_tandem = x)\<rparr>"
  by (cases x) auto

lemma fold_store_tandem:
  "fold store opts (a\<lparr>tandem := t\<rparr>) = (fold store opts a)\<lparr>tandem := (t \<or> Opt_tandem \<in> set opts)\<rparr>"
proof (induction opts arbitrary: a t)
  case Nil
  show ?case by simp
next
  case (Cons x xs)
  have "fold store (x # xs) (a\<lparr>tandem := t\<rparr>) = fold store xs ((store x a)\<lparr>tandem := (t \<or> Opt_tandem = x)\<rparr>)"
    by (simp add: store_tandem)
  also have "\<dots> = (fold store xs (store x a))\<lparr>tandem := ((t \<or> Opt_tandem = x) \<or> Opt_tandem \<in> set xs)\<rparr>"
    by (rule Cons.IH)
  finally show ?case by (simp add: disj_assoc)
qed

lemma store_keeps_tandem: "x \<noteq> Opt_tandem \<Longrightarrow> tandem (store x a) = tandem a"
  by (cases x) simp_all

lemma fold_store_without_tandem:
  "fold store (filter (\<lambda>x. x \<noteq> Opt_tandem) opts) a = (fold store opts a)\<lparr>tandem := tandem a\<rparr>"
proof (induction opts arbitrary: a)
  case Nil
  show ?case by simp
next
  case (Cons x xs)
  show ?case
  proof (cases "x = Opt_tandem")
    case True
    have "fold store (x # xs) a = fold store xs (a\<lparr>tandem := True\<rparr>)"
      using True by simp
    then have "fold store (x # xs) a = (fold store xs a)\<lparr>tandem := (True \<or> Opt_tandem \<in> set xs)\<rparr>"
      by (simp only: fold_store_tandem)
    then have "(fold store (x # xs) a)\<lparr>tandem := tandem a\<rparr> = (fold store xs a)\<lparr>tandem := tandem a\<rparr>"
      by simp
    with True Cons.IH [of a] show ?thesis by simp
  next
    case False
    have "fold store (filter (\<lambda>x. x \<noteq> Opt_tandem) (x # xs)) a =
          fold store (filter (\<lambda>x. x \<noteq> Opt_tandem) xs) (store x a)"
      using False by simp
    also have "\<dots> = (fold store xs (store x a))\<lparr>tandem := tandem (store x a)\<rparr>"
      by (rule Cons.IH)
    finally show ?thesis using False by (simp add: store_keeps_tandem)
  qed
qed

lemma validate_tandem: "validate fs cu (a\<lparr>tandem := t\<rparr>) = validate fs cu a"
  by (simp add: validate_def split del: if_split cong del: if_weak_cong option.case_cong_weak)

lemma script_tandem: "script c fs cu (a\<lparr>tandem := t\<rparr>) = script c fs cu a"
  unfolding script_def validate_tandem
  by (simp cong del: sum.case_cong_weak prod.case_cong_weak option.case_cong_weak)

text \<open>
  C9 (as amended). Two command lines that the parser splits into the same positionals and the
  same option values, occurrences of \<open>--tandem\<close> apart, give namespaces that agree on every
  field but \<open>tandem\<close>, and the two runs end with the same result, the same file system and
  the same trace.
\<close>

theorem tandem_flag_has_no_effect:
  assumes "filter (\<lambda>x. x \<noteq> Opt_tandem) opts1 = filter (\<lambda>x. x \<noteq> Opt_tandem) opts2"
  shows "(parse_args dp od fa bams opts1)\<lparr>tandem := t\<rparr> = (parse_args dp od fa bams opts2)\<lparr>tandem := t\<rparr>
       \<and> run c fs cu cpu (Command_line od fa bams opts1) = run c fs cu cpu (Command_line od fa bams opts2)"
proof -
  have same: "(parse_args k od fa bams opts1)\<lparr>tandem := u\<rparr> = (parse_args k od fa bams opts2)\<lparr>tandem := u\<rparr>"
    for k u
  proof -
    let ?d = "defaults k od fa bams"
    have "(fold store opts1 ?d)\<lparr>tandem := tandem ?d\<rparr> = (fold store opts2 ?d)\<lparr>tandem := tandem ?d\<rparr>"
      using assms fold_store_without_tandem [of opts1 ?d] fold_store_without_tandem [of opts2 ?d]
      by simp
    then have "((fold store opts1 ?d)\<lparr>tandem := tandem ?d\<rparr>)\<lparr>tandem := u\<rparr>
             = ((fold store opts2 ?d)\<lparr>tandem := tandem ?d\<rparr>)\<lparr>tandem := u\<rparr>"
      by (rule arg_cong)
    then show ?thesis by (simp add: parse_args_def)
  qed
  have "script c fs cu (parse_args k od fa bams opts1) = script c fs cu (parse_args k od fa bams opts2)"
    for k
    using script_tandem [where c = c and fs = fs and cu = cu and t = True
        and a = "parse_args k od fa bams opts1"]
      script_tandem [where c = c and fs = fs and cu = cu and t = True
        and a = "parse_args k od fa bams opts2"]
      same [where k = k and u = True]
    by simp
  then have "run c fs cu cpu (Command_line od fa bams opts1) = run c fs cu cpu (Command_line od fa bams opts2)"
    by (simp add: run_def split: sum.split)
  with same [where k = dp and u = t] show ?thesis by simp
qed

theorem tandem_flag_has_no_effect_witness:
  "filter (\<lambda>x. x \<noteq> Opt_tandem) [Opt_tandem, Opt_m 200] = filter (\<lambda>x. x \<noteq> Opt_tandem) [Opt_m 200]
   \<and> run example_collab example_fs False (Some 8)
        (Command_line ''out'' ''contigs.fna'' [''reads.bam''] [Opt_tandem, Opt_m 200])
     = run example_collab example_fs False (Some 8)
        (Command_line ''out'' ''contigs.fna'' [''reads.bam''] [Opt_m 200])
   \<and> tandem (parse_args 8 ''out'' ''contigs.fna'' [''reads.bam''] [Opt_tandem, Opt_m 200])
   \<and> \<not> tandem (parse_args 8 ''out'' ''contigs.fna'' [''reads.bam''] [Opt_m 200])"
proof -
  have h: "filter (\<lambda>x. x \<noteq> Opt_tandem) [Opt_tandem, Opt_m 200]
         = filter (\<lambda>x. x \<noteq> Opt_tandem) [Opt_m 200]"
    by simp
  have t: "tandem (parse_args 8 ''out'' ''contigs.fna'' [''reads.bam''] [Opt_tandem, Opt_m 200])"
    "\<not> tandem (parse_args 8 ''out'' ''contigs.fna'' [''reads.bam''] [Opt_m 200])"
    by (simp_all add: parse_args_def defaults_def)
  from h t tandem_flag_has_no_effect [OF h, where dp = 8 and od = "''out''"
      and fa = "''contigs.fna''" and bams = "[''reads.bam'']" and t = True
      and c = example_collab and fs = example_fs and cu = False and cpu = "Some 8"]
  show ?thesis by blast
qed

text \<open>
  C9 as stated speaks of any two invocations that differ only in the presence of \<open>--tandem\<close>.
  The flag ends the list of values that precedes it: between two alignment files it leaves
  the second one over, and \<open>parse_args\<close> exits with status 2 where the command line without
  the flag is parsed; after the values of \<open>-n\<close> it frees the next argument for \<open>bamfiles\<close>,
  and the command line is parsed where the one without the flag is not.
\<close>

theorem tandem_changes_the_split:
  "removeAll ''--tandem'' [''out'', ''contigs.fna'', ''reads.bam'', ''--tandem'', ''more.bam'']
     = [''out'', ''contigs.fna'', ''reads.bam'', ''more.bam'']
   \<and> split_argv [''out'', ''contigs.fna'', ''reads.bam'', ''more.bam'']
     = Split ''out'' ''contigs.fna'' [''reads.bam'', ''more.bam''] []
   \<and> split_argv [''out'', ''contigs.fna'', ''reads.bam'', ''--tandem'', ''more.bam'']
     = Usage_error
   \<and> removeAll ''--tandem'' [''out'', ''contigs.fna'', ''-n'', ''5'', ''--tandem'', ''reads.bam'']
     = [''out'', ''contigs.fna'', ''-n'', ''5'', ''reads.bam'']
   \<and> split_argv [''out'', ''contigs.fna'', ''-n'', ''5'', ''reads.bam''] = Usage_error
   \<and> split_argv [''out'', ''contigs.fna'', ''-n'', ''5'', ''--tandem'', ''reads.bam'']
     = Split ''out'' ''contigs.fna'' [''reads.bam''] [(Flag_n, [''5'']), (Flag_tandem, [])]"
  by (simp add: split_defs)

subsection \<open>The order of the stages\<close>

text \<open>
  Each stage extends the trace; its effects are all the effects of the stage when it returns
  normally and a prefix of them when it raises.
\<close>

lemma effects_simps [simp]:
  "effects [] = []"
  "effects (Print l # t) = effects t"
  "effects (Print_help # t) = Print_help # effects t"
  "effects (Mkdir p # t) = Mkdir p # effects t"
  "effects (Open_write p # t) = Open_write p # effects t"
  "effects (Open_read p # t) = Open_read p # effects t"
  "effects (Call_read_contigs # t) = Call_read_contigs # effects t"
  "effects (Write_npz p # t) = Write_npz p # effects t"
  "effects (Call_read_bamfiles # t) = Call_read_bamfiles # effects t"
  "effects (Call_trainvae p # t) = Call_trainvae p # effects t"
  "effects (Call_encode # t) = Call_encode # effects t"
  "effects (Call_cluster # t) = Call_cluster # effects t"
  "effects (Call_write_clusters # t) = Call_write_clusters # effects t"
  by (simp_all add: effects_def)

lemma effects_append [simp]: "effects (s @ t) = effects s @ effects t"
  by (simp add: effects_def)

lemma trace_emit [simp]: "trace (emit e w) = trace w @ [e]"
  by (simp add: emit_def)

lemma files_emit [simp]: "files (emit e w) = files w"
  by (simp add: emit_def)

lemma calc_tnf_trace:
  "\<exists>t. trace (snd (calc_tnf c od fp m w)) = trace w @ t \<and>
       (if isl (fst (calc_tnf c od fp m w))
        then prefix (effects t) [Open_read fp, Call_read_contigs, Write_npz (os_path_join od ''tnf.npz'')]
        else effects t = [Open_read fp, Call_read_contigs, Write_npz (os_path_join od ''tnf.npz'')])"
  by (auto simp add: calc_tnf_def open_rb_def save_npz_def Let_def
      split: sum.split prod.split option.split node.split)

lemma calc_rpkm_trace:
  "\<exists>t. trace (snd (calc_rpkm c od bs m s n k w)) = trace w @ t \<and>
       (if isl (fst (calc_rpkm c od bs m s n k w))
        then prefix (effects t) [Call_read_bamfiles, Write_npz (os_path_join od ''rpkm.npz'')]
        else effects t = [Call_read_bamfiles, Write_npz (os_path_join od ''rpkm.npz'')])"
  by (auto simp add: calc_rpkm_def save_npz_def Let_def
      split: sum.split prod.split option.split)

lemma trainvae_trace:
  "\<exists>t. trace (snd (trainvae c od r tn h l e b cu ca ms w)) = trace w @ t \<and>
       (if isl (fst (trainvae c od r tn h l e b cu ca ms w))
        then prefix (effects t) [Call_trainvae (os_path_join od ''model.pt''), Call_encode,
                                 Write_npz (os_path_join od ''latent.npz'')]
        else effects t = [Call_trainvae (os_path_join od ''model.pt''), Call_encode,
                          Write_npz (os_path_join od ''latent.npz'')])"
  by (auto simp add: trainvae_def save_npz_def Let_def
      split: sum.split prod.split option.split)

lemma cluster_trace:
  "\<exists>t. trace (snd (cluster c od la ns mx mn w)) = trace w @ t \<and>
       (if isl (fst (cluster c od la ns mx mn w))
        then prefix (effects t) [Call_cluster, Open_write (os_path_join od ''clusters.tsv''),
                                 Call_write_clusters]
        else effects t = [Call_cluster, Open_write (os_path_join od ''clusters.tsv''),
                          Call_write_clusters])"
  by (auto simp add: cluster_def open_w_def Let_def
      split: sum.split prod.split option.split)


lemma main_trace:
  "\<exists>t. trace (snd (main c od fp bs m s n h l e b cu ca ms mn mx w)) = trace w @ t \<and>
       (if isl (fst (main c od fp bs m s n h l e b cu ca ms mn mx w))
        then prefix (effects t)
               [Open_read fp, Call_read_contigs, Write_npz (os_path_join od ''tnf.npz''),
                Call_read_bamfiles, Write_npz (os_path_join od ''rpkm.npz''),
                Call_trainvae (os_path_join od ''model.pt''), Call_encode,
                Write_npz (os_path_join od ''latent.npz''),
                Call_cluster, Open_write (os_path_join od ''clusters.tsv''),
                Call_write_clusters]
        else effects t =
               [Open_read fp, Call_read_contigs, Write_npz (os_path_join od ''tnf.npz''),
                Call_read_bamfiles, Write_npz (os_path_join od ''rpkm.npz''),
                Call_trainvae (os_path_join od ''model.pt''), Call_encode,
                Write_npz (os_path_join od ''latent.npz''),
                Call_cluster, Open_write (os_path_join od ''clusters.tsv''),
                Call_write_clusters])"
  (is "\<exists>t. trace (snd ?run) = trace w @ t \<and> ?P t")
proof -
  let ?L1 = "[Open_read fp, Call_read_contigs, Write_npz (os_path_join od ''tnf.npz'')]"
  let ?L2 = "[Call_read_bamfiles, Write_npz (os_path_join od ''rpkm.npz'')]"
  let ?L3 = "[Call_trainvae (os_path_join od ''model.pt''), Call_encode,
              Write_npz (os_path_join od ''latent.npz'')]"
  let ?L4 = "[Call_cluster, Open_write (os_path_join od ''clusters.tsv''), Call_write_clusters]"
  let ?w2 = "emit (Print Date_and_time_is) (emit (Print (Starting_Vamb_version (version c))) w)"
  let ?t0 = "[Print (Starting_Vamb_version (version c)), Print Date_and_time_is]"
  obtain r1 w3 where s1: "calc_tnf c od fp m ?w2 = (r1, w3)"
    by (cases "calc_tnf c od fp m ?w2")
  from calc_tnf_trace [of c od fp m ?w2] s1
  obtain t1 where t1: "trace w3 = trace w @ ?t0 @ t1"
    and e1: "if isl r1 then prefix (effects t1) ?L1 else effects t1 = ?L1"
    by auto
  show ?thesis
  proof (cases r1)
    case (Inl x)
    then have "?run = (Inl x, w3)" by (simp add: main_def s1)
    moreover from e1 Inl have "prefix (effects t1) (?L1 @ ?L2 @ ?L3 @ ?L4)"
      using prefix_prefix by fastforce
    ultimately show ?thesis using t1 by (intro exI [of _ "?t0 @ t1"]) simp
  next
    case (Inr v1)
    obtain tnfs names where v1: "v1 = (tnfs, names)" by (cases v1)
    from e1 Inr have f1: "effects t1 = ?L1" by simp
    obtain r2 w4 where s2: "calc_rpkm c od bs m s n (length names) w3 = (r2, w4)"
      by (cases "calc_rpkm c od bs m s n (length names) w3")
    from calc_rpkm_trace [of c od bs m s n "length names" w3] s2
    obtain t2 where t2: "trace w4 = trace w3 @ t2"
      and e2: "if isl r2 then prefix (effects t2) ?L2 else effects t2 = ?L2"
      by auto
    show ?thesis
    proof (cases r2)
      case (Inl x)
      then have "?run = (Inl x, w4)" by (simp add: main_def s1 s2 Inr v1)
      moreover from e2 Inl have "prefix (effects t2) (?L2 @ ?L3 @ ?L4)"
        using prefix_prefix by fastforce
      ultimately show ?thesis using t1 t2 f1
        by (intro exI [of _ "?t0 @ t1 @ t2"]) simp
    next
      case rp: (Inr rpkms)
      from e2 rp have f2: "effects t2 = ?L2" by simp
      obtain r3 w5 where s3: "trainvae c od rpkms tnfs h l e b cu ca ms w4 = (r3, w5)"
        by (cases "trainvae c od rpkms tnfs h l e b cu ca ms w4")
      from trainvae_trace [of c od rpkms tnfs h l e b cu ca ms w4] s3
      obtain t3 where t3: "trace w5 = trace w4 @ t3"
        and e3: "if isl r3 then prefix (effects t3) ?L3 else effects t3 = ?L3"
        by auto
      show ?thesis
      proof (cases r3)
        case (Inl x)
        then have "?run = (Inl x, w5)" by (simp add: main_def s1 s2 s3 Inr v1 rp)
        moreover from e3 Inl have "prefix (effects t3) (?L3 @ ?L4)"
          using prefix_prefix by fastforce
        ultimately show ?thesis using t1 t2 t3 f1 f2
          by (intro exI [of _ "?t0 @ t1 @ t2 @ t3"]) simp
      next
        case la: (Inr latent)
        from e3 la have f3: "effects t3 = ?L3" by simp
        obtain r4 w6 where s4: "cluster c od latent names mx mn w5 = (r4, w6)"
          by (cases "cluster c od latent names mx mn w5")
        from cluster_trace [of c od latent names mx mn w5] s4
        obtain t4 where t4: "trace w6 = trace w5 @ t4"
          and e4: "if isl r4 then prefix (effects t4) ?L4 else effects t4 = ?L4"
          by auto
        show ?thesis
        proof (cases r4)
          case (Inl x)
          then have "?run = (Inl x, w6)" by (simp add: main_def s1 s2 s3 s4 Inr v1 rp la)
          moreover from e4 Inl have "prefix (effects t4) ?L4" by simp
          ultimately show ?thesis using t1 t2 t3 t4 f1 f2 f3
            by (intro exI [of _ "?t0 @ t1 @ t2 @ t3 @ t4"]) simp
        next
          case u: (Inr u)
          then have "?run = (Inr (), emit (Print Completed_Vamb_in_seconds) w6)"
            by (simp add: main_def s1 s2 s3 s4 Inr v1 rp la)
          moreover from e4 u have "effects t4 = ?L4" by simp
          ultimately show ?thesis using t1 t2 t3 t4 f1 f2 f3
            by (intro exI [of _ "?t0 @ t1 @ t2 @ t3 @ t4 @ [Print Completed_Vamb_in_seconds]"])
               simp
        qed
      qed
    qed
  qed
qed


lemma script_trace:
  "if fst (script c fs0 cu a) \<noteq> None
   then prefix (effects (trace (snd (script c fs0 cu a))))
          [Mkdir (outdir a), Open_write (os_path_join (outdir a) ''log.txt''),
           Open_read (fasta a), Call_read_contigs,
           Write_npz (os_path_join (outdir a) ''tnf.npz''),
           Call_read_bamfiles, Write_npz (os_path_join (outdir a) ''rpkm.npz''),
           Call_trainvae (os_path_join (outdir a) ''model.pt''), Call_encode,
           Write_npz (os_path_join (outdir a) ''latent.npz''),
           Call_cluster, Open_write (os_path_join (outdir a) ''clusters.tsv''),
           Call_write_clusters]
   else effects (trace (snd (script c fs0 cu a))) =
          [Mkdir (outdir a), Open_write (os_path_join (outdir a) ''log.txt''),
           Open_read (fasta a), Call_read_contigs,
           Write_npz (os_path_join (outdir a) ''tnf.npz''),
           Call_read_bamfiles, Write_npz (os_path_join (outdir a) ''rpkm.npz''),
           Call_trainvae (os_path_join (outdir a) ''model.pt''), Call_encode,
           Write_npz (os_path_join (outdir a) ''latent.npz''),
           Call_cluster, Open_write (os_path_join (outdir a) ''clusters.tsv''),
           Call_write_clusters]"
proof (cases "validate fs0 cu a")
  case (Inl x)
  then have "script c fs0 cu a = (Some x, \<lparr>files = fs0, trace = []\<rparr>)"
    by (simp add: script_def)
  then show ?thesis by simp
next
  case (Inr u)
  let ?w0 = "\<lparr>files = fs0, trace = []\<rparr>"
  let ?log = "os_path_join (outdir a) ''log.txt''"
  show ?thesis
  proof (cases "fs0 (outdir a) = None")
    case False
    then have "script c fs0 cu a = (Some (FileExistsError (outdir a)), ?w0)"
      using Inr by (simp add: script_def os_mkdir_def)
    then show ?thesis by simp
  next
    case True
    let ?w1 = "emit (Mkdir (outdir a)) (?w0\<lparr>files := fs0(outdir a \<mapsto> Dir)\<rparr>)"
    have m: "os_mkdir (outdir a) ?w0 = (None, ?w1)"
      using True by (simp add: os_mkdir_def)
    show ?thesis
    proof (cases "files ?w1 ?log = Some Dir")
      case True
      then have "open_w ?log ?w1 = (Some (IsADirectoryError ?log), ?w1)"
        by (simp add: open_w_def)
      then have "script c fs0 cu a = (Some (IsADirectoryError ?log), ?w1)"
        using Inr m by (simp add: script_def)
      then show ?thesis by simp
    next
      case False
      let ?w2 = "emit (Open_write ?log) (?w1\<lparr>files := (files ?w1)(?log \<mapsto> File)\<rparr>)"
      let ?main = "main c (outdir a) (fasta a) (bamfiles a) (minlength a) (minascore a)
                     (subprocesses a) (nhiddens a) (nlatent a) (nepochs a) (batchsize a)
                     (cuda a) (capacity a) (mseratio a) (minsize a) (maxclusters a) ?w2"
      have o: "open_w ?log ?w1 = (None, ?w2)"
        using False by (simp add: open_w_def)
      have t2: "trace ?w2 = [Mkdir (outdir a), Open_write ?log]"
        by simp
      have s: "script c fs0 cu a =
                 (case ?main of (Inl e, w3) \<Rightarrow> (Some e, w3) | (Inr u, w3) \<Rightarrow> (None, w3))"
        using Inr m o by (simp add: script_def)
      obtain r w3 where mn: "?main = (r, w3)" by (cases ?main)
      from main_trace [of c "outdir a" "fasta a" "bamfiles a" "minlength a" "minascore a"
          "subprocesses a" "nhiddens a" "nlatent a" "nepochs a" "batchsize a" "cuda a"
          "capacity a" "mseratio a" "minsize a" "maxclusters a" ?w2] mn t2
      obtain t where t: "trace w3 = [Mkdir (outdir a), Open_write ?log] @ t"
        and e: "if isl r
          then prefix (effects t)
               [Open_read (fasta a), Call_read_contigs,
                Write_npz (os_path_join (outdir a) ''tnf.npz''),
                Call_read_bamfiles, Write_npz (os_path_join (outdir a) ''rpkm.npz''),
                Call_trainvae (os_path_join (outdir a) ''model.pt''), Call_encode,
                Write_npz (os_path_join (outdir a) ''latent.npz''),
                Call_cluster, Open_write (os_path_join (outdir a) ''clusters.tsv''),
                Call_write_clusters]
          else effects t =
               [Open_read (fasta a), Call_read_contigs,
                Write_npz (os_path_join (outdir a) ''tnf.npz''),
                Call_read_bamfiles, Write_npz (os_path_join (outdir a) ''rpkm.npz''),
                Call_trainvae (os_path_join (outdir a) ''model.pt''), Call_encode,
                Write_npz (os_path_join (outdir a) ''latent.npz''),
                Call_cluster, Open_write (os_path_join (outdir a) ''clusters.tsv''),
                Call_write_clusters]"
        by auto
      show ?thesis
      proof (cases r)
        case (Inl x)
        then have "script c fs0 cu a = (Some x, w3)" using s mn by simp
        then show ?thesis using t e Inl by simp
      next
        case (Inr y)
        then have "script c fs0 cu a = (None, w3)" using s mn by simp
        then show ?thesis using t e Inr by simp
      qed
    qed
  qed
qed

text \<open>
  C4. In every run the effects occur in one fixed order: the output directory, the log file,
  feature extraction and \<open>tnf.npz\<close>, coverage estimation and \<open>rpkm.npz\<close>, training, encoding
  and \<open>latent.npz\<close>, clustering and \<open>clusters.tsv\<close>. The run may stop early, but what it has
  done is always an initial part of this sequence, so \<open>read_bamfiles\<close> is called only after
  \<open>tnf.npz\<close> is written, the training only after \<open>rpkm.npz\<close> is written, and the clustering
  only after \<open>latent.npz\<close> is written.
\<close>

theorem stages_run_in_order:
  "prefix (effects (trace (snd (script c fs0 cu a))))
     [Mkdir (outdir a), Open_write (os_path_join (outdir a) ''log.txt''),
      Open_read (fasta a), Call_read_contigs,
      Write_npz (os_path_join (outdir a) ''tnf.npz''),
      Call_read_bamfiles, Write_npz (os_path_join (outdir a) ''rpkm.npz''),
      Call_trainvae (os_path_join (outdir a) ''model.pt''), Call_encode,
      Write_npz (os_path_join (outdir a) ''latent.npz''),
      Call_cluster, Open_write (os_path_join (outdir a) ''clusters.tsv''),
      Call_write_clusters]"
proof (cases "fst (script c fs0 cu a) = None")
  case True
  then show ?thesis using script_trace [of c fs0 cu a] by simp
next
  case False
  then show ?thesis using script_trace [of c fs0 cu a] by simp
qed

text \<open>
  C5. A run that ends without exception has written the log to \<open>log.txt\<close>, the features to
  \<open>tnf.npz\<close>, the coverage to \<open>rpkm.npz\<close>, the embedding to \<open>latent.npz\<close> and the clusters to
  \<open>clusters.tsv\<close>, and has handed \<open>model.pt\<close> to the training as the model file, all joined
  to the output directory.
\<close>

theorem successful_run_writes_fixed_names:
  "fst (script c fs0 cu a) = None \<Longrightarrow>
   effects (trace (snd (script c fs0 cu a))) =
     [Mkdir (outdir a), Open_write (os_path_join (outdir a) ''log.txt''),
      Open_read (fasta a), Call_read_contigs,
      Write_npz (os_path_join (outdir a) ''tnf.npz''),
      Call_read_bamfiles, Write_npz (os_path_join (outdir a) ''rpkm.npz''),
      Call_trainvae (os_path_join (outdir a) ''model.pt''), Call_encode,
      Write_npz (os_path_join (outdir a) ''latent.npz''),
      Call_cluster, Open_write (os_path_join (outdir a) ''clusters.tsv''),
      Call_write_clusters]"
  using script_trace [of c fs0 cu a] by simp

text \<open>The example run ends without exception.\<close>

lemma example_run_succeeds: "fst (script example_collab example_fs False example_args) = None"
  by (simp add: example_defs)

theorem successful_run_writes_fixed_names_witness:
  "fst (script example_collab example_fs False example_args) = None
   \<and> effects (trace (snd (script example_collab example_fs False example_args))) =
     [Mkdir ''out'', Open_write ''out/log.txt'', Open_read ''contigs.fna'', Call_read_contigs,
      Write_npz ''out/tnf.npz'', Call_read_bamfiles, Write_npz ''out/rpkm.npz'',
      Call_trainvae ''out/model.pt'', Call_encode, Write_npz ''out/latent.npz'',
      Call_cluster, Open_write ''out/clusters.tsv'', Call_write_clusters]"
proof -
  have h: "fst (script example_collab example_fs False example_args) = None"
    by (rule example_run_succeeds)
  have a: "outdir example_args = ''out''" "fasta example_args = ''contigs.fna''"
    by (simp_all add: example_args_def parse_args_def defaults_def)
  from h successful_run_writes_fixed_names [OF h] show ?thesis
    by (simp add: a os_path_join_def)
qed

subsection \<open>Failures during the run\<close>

text \<open>
  C1 (as amended). When \<open>read_bamfiles\<close> returns a matrix whose row count differs from the
  number of contig names, \<open>main\<close> ends with a \<open>ValueError\<close> whose message is the fixed text
  about FASTA and BAM headers; \<open>rpkm.npz\<close> is not written and the training is not called.
\<close>

theorem count_mismatch_raises_ValueError:
  assumes "files w fastapath = Some File"
    and "read_contigs c fastapath mcl = Inr (tnfs, contignames, contiglengths)"
    and "write_npz c (os_path_join od ''tnf.npz'') tnfs = None"
    and "read_bamfiles c bampaths mas mcl nsub = Inr rpkms"
    and "length rpkms \<noteq> length contignames"
  shows "main c od fastapath bampaths mcl mas nsub hid lat ep bs cu cap ratio mcs nmax w =
    (Inl (ValueError ''Number of FASTA vs BAM file headers do not match. Are you sure the BAM files originate from same FASTA file and have headers?''),
     w\<lparr>files := (files w)(os_path_join od ''tnf.npz'' \<mapsto> File),
       trace := trace w @
         [Print (Starting_Vamb_version (version c)), Print Date_and_time_is,
          Print Calculating_TNF, Open_read fastapath, Call_read_contigs,
          Write_npz (os_path_join od ''tnf.npz''),
          Print (Processed_bases_in_contigs (sum_list contiglengths) (length contiglengths)),
          Print Calculated_TNF_in_seconds,
          Print Calculating_RPKM,
          Print (Parsing_BAM_files_with_subprocesses (length bampaths) nsub),
          Call_read_bamfiles]\<rparr>)"
  using assms by (simp add: main_def stage_defs)

theorem count_mismatch_raises_ValueError_witness:
  "length [[3 :: rat]] \<noteq> length [''contig1'', ''contig2'']
   \<and> fst (main mismatch_collab ''out'' ''contigs.fna'' [''reads.bam''] 100 50 8 [325, 325, 325]
           40 400 128 False (Finite 1000) float_0_2 1 (- 1) example_world)
     = Inl (ValueError ''Number of FASTA vs BAM file headers do not match. Are you sure the BAM files originate from same FASTA file and have headers?'')
   \<and> effects (trace (snd (main mismatch_collab ''out'' ''contigs.fna'' [''reads.bam''] 100 50 8
           [325, 325, 325] 40 400 128 False (Finite 1000) float_0_2 1 (- 1) example_world)))
     = [Open_read ''contigs.fna'', Call_read_contigs, Write_npz ''out/tnf.npz'',
        Call_read_bamfiles]"
proof -
  note ev = mismatch_collab_def example_collab_def example_world_def example_fs_def
    os_path_join_def
  have h: "files example_world ''contigs.fna'' = Some File"
    "read_contigs mismatch_collab ''contigs.fna'' 100
       = Inr ([[1 / 2], [1 / 4]], [''contig1'', ''contig2''], [150, 200])"
    "write_npz mismatch_collab (os_path_join ''out'' ''tnf.npz'') [[1 / 2], [1 / 4]] = None"
    "read_bamfiles mismatch_collab [''reads.bam''] 50 100 8 = Inr [[3]]"
    "length [[3 :: rat]] \<noteq> length [''contig1'', ''contig2'']"
    by (simp_all add: ev)
  from h(5) count_mismatch_raises_ValueError [OF h, where hid = "[325, 325, 325]" and lat = 40
      and ep = 400 and bs = 128 and cu = False and cap = "Finite 1000" and ratio = float_0_2
      and mcs = 1 and nmax = "- 1"]
  show ?thesis by (simp add: ev)
qed

text \<open>
  C1 as stated says that the error names both counts. With two contigs and one row of
  coverage the message is the fixed text, in which no digit occurs.
\<close>

theorem mismatch_message_names_no_count:
  "fst (run mismatch_collab example_fs False (Some 8)
          (Command_line ''out'' ''contigs.fna'' [''reads.bam''] []))
     = Some (ValueError ''Number of FASTA vs BAM file headers do not match. Are you sure the BAM files originate from same FASTA file and have headers?'')
   \<and> digits_in ''Number of FASTA vs BAM file headers do not match. Are you sure the BAM files originate from same FASTA file and have headers?'' = []
   \<and> read_contigs mismatch_collab ''contigs.fna'' 100
       = Inr ([[1 / 2], [1 / 4]], [''contig1'', ''contig2''], [150, 200])
   \<and> read_bamfiles mismatch_collab [''reads.bam''] 50 100 8 = Inr [[3]]"
  by (simp add: example_defs digits_in_def)




end
